theory Spec2Isabelle
  imports Complex_Main "HOL-Library.Word" "HOL-Library.List_Lexorder" "HOL-Library.Char_ord"
begin

section \<open>Values, arrays and errors\<close>

text \<open>
  The exceptions the modelled functions raise. Each raise of the source is an \<open>Inl\<close>
  result of the model.
\<close>

datatype error = ValueError | IndexError | AttributeError | UnboundLocalError | EinopsError

text \<open>
  A floating-point array element: NaN or a finite number. Rounding is not modelled (a
  finite element is the real number it stands for) and the infinities are left out.
\<close>

datatype fl = NaN | Fin real

text \<open>numpy's elementwise comparisons with a scalar: every comparison with NaN but
  \<open>!=\<close> is False.\<close>

definition fl_eq :: "fl \<Rightarrow> real \<Rightarrow> bool" where
  "fl_eq v k = (case v of NaN \<Rightarrow> False | Fin x \<Rightarrow> x = k)"

definition fl_ne :: "fl \<Rightarrow> real \<Rightarrow> bool" where
  "fl_ne v k = (\<not> fl_eq v k)"

definition fl_gt :: "fl \<Rightarrow> real \<Rightarrow> bool" where
  "fl_gt v k = (case v of NaN \<Rightarrow> False | Fin x \<Rightarrow> k < x)"

text \<open>Arithmetic propagates NaN.\<close>

definition fl_add :: "fl \<Rightarrow> fl \<Rightarrow> fl" where
  "fl_add a b = (case a of NaN \<Rightarrow> NaN | Fin x \<Rightarrow> (case b of NaN \<Rightarrow> NaN | Fin y \<Rightarrow> Fin (x + y)))"

definition fl_sub :: "fl \<Rightarrow> fl \<Rightarrow> fl" where
  "fl_sub a b = (case a of NaN \<Rightarrow> NaN | Fin x \<Rightarrow> (case b of NaN \<Rightarrow> NaN | Fin y \<Rightarrow> Fin (x - y)))"

text \<open>\<open>np.nan_to_num(v, nan=d)\<close> on one element.\<close>

definition nan_to_num :: "real \<Rightarrow> fl \<Rightarrow> real" where
  "nan_to_num d v = (case v of NaN \<Rightarrow> d | Fin x \<Rightarrow> x)"

text \<open>
  Arrays are nested lists in C order: a 2-D array is a list of rows, a 3-D array a list
  of rows of cells, each cell the list of its band values. A data variable is 2-D or 3-D
  (\<open>ortho_xr\<close>: "Only works for 2 or 3 dimensional arays").
\<close>

type_synonym arr2 = "fl list list"
type_synonym arr3 = "fl list list list"

datatype ndarr = A2 arr2 | A3 arr3

definition ncols :: "'a list list \<Rightarrow> nat" where
  "ncols a = (case a of [] \<Rightarrow> 0 | r # _ \<Rightarrow> length r)"

definition nbands :: "'a list list list \<Rightarrow> nat" where
  "nbands a = (case a of [] \<Rightarrow> 0 | r # _ \<Rightarrow> ncols r)"

definition shape3 :: "'a list list list \<Rightarrow> nat list" where
  "shape3 a = [length a, ncols a, nbands a]"

text \<open>\<open>a[:,:,np.newaxis]\<close> on a 2-D array.\<close>

definition newaxis :: "arr2 \<Rightarrow> arr3" where
  "newaxis m = map (map (\<lambda>v. [v])) m"

text \<open>
  One integer index into an axis of length \<open>n\<close>, as numpy reads it: a negative index
  counts from the end, and an index outside \<open>[-n, n)\<close> raises IndexError.
\<close>

definition np_index :: "nat \<Rightarrow> int \<Rightarrow> error + nat" where
  "np_index n i =
     (if 0 \<le> i \<and> i < int n then Inr (nat i)
      else if - int n \<le> i \<and> i < 0 then Inr (nat (int n + i))
      else Inl IndexError)"

text \<open>The first error of a list of results, or all the values.\<close>

fun collect :: "(error + 'a) list \<Rightarrow> error + 'a list" where
  "collect [] = Inr []"
| "collect (x # xs) =
     (case x of
        Inl e \<Rightarrow> Inl e
      | Inr v \<Rightarrow> (case collect xs of Inl e \<Rightarrow> Inl e | Inr vs \<Rightarrow> Inr (v # vs)))"

section \<open>apply_glt\<close>

text \<open>
  The GLT array has shape (rows, cols, 2) and an integer dtype (\<open>ortho_xr\<close> builds it
  with \<open>astype(int)\<close>, 64 bits): a cell is the pair \<open>(glt[r,c,0], glt[r,c,1])\<close>, the
  crosstrack (x) and the downtrack (y) index. \<open>-=\<close> wraps around as the machine
  integer does. \<open>GLT_NODATA_VALUE\<close> is a Python integer and \<open>fill_value\<close> a Python
  number.
\<close>

type_synonym glt_cell = "64 word \<times> 64 word"
type_synonym glt = "glt_cell list list"

text \<open>\<open>valid_glt = np.all(glt_array != GLT_NODATA_VALUE, axis=-1)\<close>\<close>

definition valid_glt :: "int \<Rightarrow> glt_cell \<Rightarrow> bool" where
  "valid_glt nodata g = (sint (fst g) \<noteq> nodata \<and> sint (snd g) \<noteq> nodata)"

text \<open>\<open>glt_array[valid_glt] -= 1\<close>, on one cell.\<close>

definition decrement :: "int \<Rightarrow> glt_cell \<Rightarrow> glt_cell" where
  "decrement nodata g = (if valid_glt nodata g then (fst g - 1, snd g - 1) else g)"

text \<open>
  \<open>ds_array[glt_array[valid_glt, 1], glt_array[valid_glt, 0], :]\<close> at one cell of the
  decremented GLT: component 1 indexes the rows of the source, component 0 its columns.
\<close>

definition gather :: "arr3 \<Rightarrow> glt_cell \<Rightarrow> error + fl list" where
  "gather ds_array g =
     (case np_index (length ds_array) (sint (snd g)) of
        Inl e \<Rightarrow> Inl e
      | Inr r \<Rightarrow>
          (case np_index (ncols ds_array) (sint (fst g)) of
             Inl e \<Rightarrow> Inl e
           | Inr c \<Rightarrow> Inr (ds_array ! r ! c)))"

text \<open>
  One cell of \<open>out_ds\<close>: the fill value in each of the \<open>b\<close> bands where the GLT is not
  valid, the gathered source cell where it is. The argument is the cell before the
  decrement.
\<close>

definition out_cell :: "arr3 \<Rightarrow> nat \<Rightarrow> real \<Rightarrow> int \<Rightarrow> glt_cell \<Rightarrow> error + fl list" where
  "out_cell ds_array b fill_value nodata g =
     (if valid_glt nodata g then gather ds_array (decrement nodata g)
      else Inr (replicate b (Fin fill_value)))"

text \<open>
  \<open>apply_glt(ds_array, glt_array, fill_value, GLT_NODATA_VALUE)\<close>. The GLT array is
  the caller's object and line 175 writes into it, so the model returns the array as the
  call leaves it together with the result. The write comes before the gather of line
  176, so the array is decremented also when the gather raises. The number of bands is
  \<open>ds_array.shape[-1]\<close>: 1 for a 2-D source.
\<close>

definition apply_glt :: "ndarr \<Rightarrow> glt \<Rightarrow> real \<Rightarrow> int \<Rightarrow> glt \<times> (error + arr3)" where
  "apply_glt ds glt_array fill_value nodata =
     (let ds_array = (case ds of A2 m \<Rightarrow> newaxis m | A3 c \<Rightarrow> c);
          b = (case ds of A2 m \<Rightarrow> 1 | A3 c \<Rightarrow> nbands c)
      in (map (map (decrement nodata)) glt_array,
          collect (map (\<lambda>row. collect (map (out_cell ds_array b fill_value nodata) row))
                     glt_array)))"

section \<open>ortho_xr\<close>

text \<open>
  What \<open>ortho_xr\<close> and \<open>emit_xarray\<close> read of a dataset in sensor geometry: its data
  variables in order, and the location arrays \<open>glt_x\<close>, \<open>glt_y\<close> and \<open>elev\<close>. The
  coordinate vectors and the attributes are left out.
\<close>

record dataset =
  data_vars :: "(string \<times> ndarr) list"
  glt_x :: arr2
  glt_y :: arr2
  elev :: arr2

record ortho_dataset =
  ortho_vars :: "(string \<times> ndarr) list"
  ortho_elev :: arr2

text \<open>\<open>astype(int)\<close> on a float: truncation towards zero, into 64 bits.\<close>

definition astype_int :: "real \<Rightarrow> 64 word" where
  "astype_int x = word_of_int (if 0 \<le> x then \<lfloor>x\<rfloor> else \<lceil>x\<rceil>)"

text \<open>
  \<open>np.nan_to_num(np.stack([glt_x, glt_y], axis=-1), nan=GLT_NODATA_VALUE).astype(int)\<close>:
  a fresh array on every call. \<open>np.stack\<close> raises ValueError on arrays of different
  shapes.
\<close>

definition stack_glt :: "int \<Rightarrow> arr2 \<Rightarrow> arr2 \<Rightarrow> error + glt" where
  "stack_glt nodata gx gy =
     (if map length gx = map length gy
      then Inr (map2 (map2 (\<lambda>x y. (astype_int (nan_to_num (of_int nodata) x),
                                      astype_int (nan_to_num (of_int nodata) y)))) gx gy)
      else Inl ValueError)"

text \<open>\<open>out_ds[out_ds == fill_value] = np.nan\<close>\<close>

definition fill_nan :: "real \<Rightarrow> fl \<Rightarrow> fl" where
  "fill_nan fill_value v = (if fl_eq v fill_value then NaN else v)"

definition mask_fill :: "real \<Rightarrow> arr3 \<Rightarrow> arr3" where
  "mask_fill fill_value out_ds = map (map (map (fill_nan fill_value))) out_ds"

text \<open>
  \<open>squeeze\<close> of an array of shape (rows, cols, 1) with rows and cols other than 1: the
  band axis goes. (With one row or one column \<open>squeeze\<close> drops that axis too;
  \<open>ortho_xr\<close> below then fails when it builds the dataset.)
\<close>

definition squeeze :: "arr3 \<Rightarrow> arr2" where
  "squeeze a = map (map hd) a"

text \<open>
  The loop over \<open>var_list\<close> (lines 207 to 223). Every iteration passes the same
  \<open>glt_ds\<close> object to \<open>apply_glt\<close>, so the array one call leaves is the array the next
  call gets. \<open>apply_glt\<close> is called without \<open>fill_value\<close>, so it fills with its default.
\<close>

fun ortho_loop :: "real \<Rightarrow> int \<Rightarrow> glt \<Rightarrow> (string \<times> ndarr) list
    \<Rightarrow> glt \<times> (error + (string \<times> ndarr) list)" where
  "ortho_loop fill_value nodata glt_ds [] = (glt_ds, Inr [])"
| "ortho_loop fill_value nodata glt_ds ((var, raw_ds) # rest) =
     (case apply_glt raw_ds glt_ds (- 9999) nodata of
        (glt1, Inl e) \<Rightarrow> (glt1, Inl e)
      | (glt1, Inr out_ds) \<Rightarrow>
          (case ortho_loop fill_value nodata glt1 rest of
             (glt2, Inl e) \<Rightarrow> (glt2, Inl e)
           | (glt2, Inr vs) \<Rightarrow>
               (glt2,
                Inr ((var,
                      (case raw_ds of
                         A2 m \<Rightarrow> A2 (squeeze (mask_fill fill_value out_ds))
                       | A3 c \<Rightarrow> A3 (mask_fill fill_value out_ds))) # vs))))"

text \<open>
  \<open>ortho_xr(ds, GLT_NODATA_VALUE, fill_value)\<close>. The elevation goes through
  \<open>apply_glt\<close> after the data variables, with the same \<open>glt_ds\<close> and the defaults of
  \<open>apply_glt\<close>. Then \<open>xr.Dataset\<close> is built: the squeezed elevation must be 2-D, so a
  GLT of one row or one column ends in ValueError; and \<open>del out_ds\<close> needs the loop
  to have run once. The names of the data variables are the keys of a dictionary, so
  removing \<open>flat_field_update\<close> from the list removes every variable of that name.
\<close>

definition ortho_xr :: "dataset \<Rightarrow> int \<Rightarrow> real \<Rightarrow> error + ortho_dataset" where
  "ortho_xr ds nodata fill_value =
     (case stack_glt nodata (glt_x ds) (glt_y ds) of
        Inl e \<Rightarrow> Inl e
      | Inr glt_ds \<Rightarrow>
          (let var_list = filter (\<lambda>v. fst v \<noteq> ''flat_field_update'') (data_vars ds)
           in case ortho_loop fill_value nodata glt_ds var_list of
                (glt1, Inl e) \<Rightarrow> Inl e
              | (glt1, Inr vars) \<Rightarrow>
                  (case apply_glt (A2 (elev ds)) glt1 (- 9999) 0 of
                     (glt2, Inl e) \<Rightarrow> Inl e
                   | (glt2, Inr elev_ds) \<Rightarrow>
                       if length glt_ds = 1 \<or> ncols glt_ds = 1 then Inl ValueError
                       else if var_list = [] then Inl UnboundLocalError
                       else Inr \<lparr>ortho_vars = vars,
                                 ortho_elev = squeeze (mask_fill fill_value elev_ds)\<rparr>)))"

section \<open>emit_xarray\<close>

text \<open>
  \<open>da.where(mask != 1, other)\<close> for a mask that is a plain numpy array of shape
  (d, c, 1) followed by \<open>k\<close> further axes of length 1: \<open>msk\<close> is the 2-D array before
  the \<open>np.newaxis\<close>. numpy broadcasts it against the variable's data from the last axis;
  xarray raises ValueError when the result has another number of axes or another shape
  than the variable. Where it returns, the result keeps the variable's value at the
  pixels whose mask is not 1 and has \<open>other\<close> at the rest, in every band.
\<close>

definition bidx :: "nat \<Rightarrow> nat \<Rightarrow> nat" where
  "bidx n i = (if n = 1 then 0 else i)"

definition where3 :: "arr3 \<Rightarrow> arr2 \<Rightarrow> fl \<Rightarrow> arr3" where
  "where3 a msk other =
     map (\<lambda>(r, row).
            map (\<lambda>(c, cell).
                   map (\<lambda>v. if fl_ne (msk ! bidx (length msk) r ! bidx (ncols msk) c) 1
                             then v else other) cell)
                (enumerate 0 row))
         (enumerate 0 a)"

definition da_where :: "ndarr \<Rightarrow> arr2 \<Rightarrow> nat \<Rightarrow> fl \<Rightarrow> error + ndarr" where
  "da_where a msk k other =
     (case a of
        A2 m \<Rightarrow> Inl ValueError
      | A3 c \<Rightarrow>
          if k = 0 \<and> (length msk = 1 \<or> length msk = length c)
             \<and> (ncols msk = 1 \<or> ncols msk = ncols c)
          then Inr (A3 (where3 c msk other))
          else Inl ValueError)"

text \<open>
  \<open>out_xr[var].data[unpacked_bmask == 1] = np.nan\<close>: a boolean index of three axes
  needs data of the same shape (IndexError otherwise).
\<close>

definition apply_bmask :: "8 word list list list \<Rightarrow> ndarr \<Rightarrow> error + ndarr" where
  "apply_bmask unpacked_bmask a =
     (case a of
        A2 m \<Rightarrow> Inl IndexError
      | A3 c \<Rightarrow>
          if shape3 unpacked_bmask = shape3 c
          then Inr (A3 (map2 (map2 (map2 (\<lambda>b v. if b = 1 then NaN else v))) unpacked_bmask c))
          else Inl IndexError)"

definition map_ndarr :: "(fl \<Rightarrow> fl) \<Rightarrow> ndarr \<Rightarrow> ndarr" where
  "map_ndarr f a = (case a of A2 m \<Rightarrow> A2 (map (map f) m) | A3 c \<Rightarrow> A3 (map (map (map f)) c))"

text \<open>
  The loop of lines 110 to 118 over the data variables. \<open>k\<close> counts the iterations
  before this one: line 112 rebinds \<open>qmask\<close> to \<open>qmask[:,:,np.newaxis]\<close> in every
  iteration, so the mask has one axis more each time. Line 113 calls \<open>where\<close> and drops
  its result: the call can raise, and what it returns is bound to nothing. Lines 116 and
  118 write into the variable's data.
\<close>

fun mask_loop :: "arr2 option \<Rightarrow> nat \<Rightarrow> 8 word list list list option
    \<Rightarrow> (string \<times> ndarr) list \<Rightarrow> error + (string \<times> ndarr) list" where
  "mask_loop qmask k unpacked_bmask [] = Inr []"
| "mask_loop qmask k unpacked_bmask ((var, a) # rest) =
     (case (case qmask of
              None \<Rightarrow> Inr a
            | Some q \<Rightarrow> (case da_where a q k NaN of Inl e \<Rightarrow> Inl e | Inr _ \<Rightarrow> Inr a)) of
        Inl e \<Rightarrow> Inl e
      | Inr a0 \<Rightarrow>
          (case (case unpacked_bmask of None \<Rightarrow> Inr a0 | Some b \<Rightarrow> apply_bmask b a0) of
             Inl e \<Rightarrow> Inl e
           | Inr a1 \<Rightarrow>
               (case mask_loop qmask (Suc k) unpacked_bmask rest of
                  Inl e \<Rightarrow> Inl e
                | Inr vs \<Rightarrow> Inr ((var, map_ndarr (fill_nan (- 9999)) a1) # vs))))"

text \<open>
  \<open>emit_xarray(filepath, ortho, qmask, unpacked_bmask, chunk)\<close>, from the dataset read
  from the file on. \<open>chunk\<close> says whether a chunking was given. The result is the
  dataset in sensor geometry, or the orthorectified one.
\<close>

datatype xr_dataset = Sensor dataset | Ortho ortho_dataset

definition emit_xarray :: "dataset \<Rightarrow> bool \<Rightarrow> arr2 option \<Rightarrow> 8 word list list list option
    \<Rightarrow> bool \<Rightarrow> error + xr_dataset" where
  "emit_xarray file ortho qmask unpacked_bmask chunk =
     (if chunk \<and> ortho then Inl ValueError
      else case mask_loop qmask 0 unpacked_bmask (data_vars file) of
             Inl e \<Rightarrow> Inl e
           | Inr vars \<Rightarrow>
               if ortho
               then (case ortho_xr (file\<lparr>data_vars := vars\<rparr>) 0 (- 9999) of
                       Inl e \<Rightarrow> Inl e
                     | Inr out_xr \<Rightarrow> Inr (Ortho out_xr))
               else Inr (Sensor (file\<lparr>data_vars := vars\<rparr>)))"

section \<open>quality_mask\<close>

text \<open>
  What \<open>quality_mask\<close> reads of an EMIT L2A mask file: the \<open>mask\<close> variable, of shape
  (downtrack, crosstrack, bands), and the names \<open>mask_bands\<close> of the group
  \<open>sensor_band_parameters\<close>.
\<close>

record mask_file =
  mask_data :: arr3
  mask_bands :: "string list"

text \<open>\<open>a[idx]\<close> for a list of integer indices.\<close>

definition take_idx :: "'a list \<Rightarrow> int list \<Rightarrow> error + 'a list" where
  "take_idx xs idx =
     collect (map (\<lambda>i. case np_index (length xs) i of Inl e \<Rightarrow> Inl e | Inr j \<Rightarrow> Inr (xs ! j)) idx)"

definition np_sum :: "fl list \<Rightarrow> fl" where
  "np_sum vs = foldl fl_add (Fin 0) vs"

text \<open>\<open>qmask[qmask > 1] = 1\<close>\<close>

definition clamp1 :: "fl \<Rightarrow> fl" where
  "clamp1 v = (if fl_gt v 1 then Fin 1 else v)"

text \<open>Lines 284 and 285: the sum of the selected bands at every pixel, clamped.\<close>

definition build_qmask :: "arr3 \<Rightarrow> int list \<Rightarrow> error + arr2" where
  "build_qmask m quality_bands =
     collect (map (\<lambda>row. collect (map (\<lambda>cell. case take_idx cell quality_bands of
                                                  Inl e \<Rightarrow> Inl e
                                                | Inr vs \<Rightarrow> Inr (clamp1 (np_sum vs))) row)) m)"

text \<open>
  \<open>quality_mask(filepath, quality_bands)\<close>, from the opened file on. The first
  component is what line 278 prints (the names of the flags used; nothing when line 277
  raises), the second the exception raised or the mask returned.
\<close>

definition quality_mask :: "mask_file \<Rightarrow> int list \<Rightarrow> string list \<times> (error + arr2)" where
  "quality_mask f quality_bands =
     (case take_idx (mask_bands f) quality_bands of
        Inl e \<Rightarrow> ([], Inl e)
      | Inr flags_used \<Rightarrow>
          (flags_used,
           if 5 \<in> set quality_bands \<or> 6 \<in> set quality_bands then Inl AttributeError
           else build_qmask (mask_data f) quality_bands))"

section \<open>raw_spatial_crop: re-indexing the clipped GLT\<close>

fun finite_vals :: "fl list \<Rightarrow> real list" where
  "finite_vals [] = []"
| "finite_vals (NaN # vs) = finite_vals vs"
| "finite_vals (Fin x # vs) = x # finite_vals vs"

text \<open>
  \<open>np.nanmin\<close> over all the elements: the least element that is not NaN, NaN (and a
  warning) when all are NaN, ValueError on an array with no element.
\<close>

definition nanmin :: "arr2 \<Rightarrow> error + fl" where
  "nanmin a =
     (if concat a = [] then Inl ValueError
      else case finite_vals (concat a) of
             [] \<Rightarrow> Inr NaN
           | x # xs \<Rightarrow> Inr (Fin (fold min xs x)))"

text \<open>
  Lines 512 to 514, for one of \<open>glt_x\<close> and \<open>glt_y\<close>:
  \<open>np.nan_to_num((clipped - np.nanmin(clipped)) + 1)\<close>. The argument is the GLT band
  as rioxarray's clip returns it, NaN at the cells the clip removed.
\<close>

definition reindex :: "arr2 \<Rightarrow> error + arr2" where
  "reindex clipped =
     (case nanmin clipped of
        Inl e \<Rightarrow> Inl e
      | Inr m \<Rightarrow> Inr (map (map (\<lambda>v. Fin (nan_to_num 0 (fl_add (fl_sub v m) (Fin 1))))) clipped))"

definition reindex_glt :: "arr2 \<Rightarrow> arr2 \<Rightarrow> error + arr2 \<times> arr2" where
  "reindex_glt clipped_glt_x clipped_glt_y =
     (case reindex clipped_glt_x of
        Inl e \<Rightarrow> Inl e
      | Inr glt_x_data \<Rightarrow>
          (case reindex clipped_glt_y of
             Inl e \<Rightarrow> Inl e
           | Inr glt_y_data \<Rightarrow> Inr (glt_x_data, glt_y_data)))"

section \<open>extract_points\<close>





section \<open>mix_fast\<close>

text \<open>
  A row of the input table is its feature columns and its \<open>Category\<close>, the last column.
  What the random generator returns in one iteration of the loop is an input of the
  model: \<open>nclass\<close> from \<open>randint(1, 3)\<close>, \<open>selected_rows\<close> from
  \<open>choice(num_rows, size=nclass, replace=False)\<close> and \<open>weights\<close> from
  \<open>dirichlet(ones(nclass))\<close>.
\<close>

type_synonym spectral_row = "real list \<times> string"

record draw =
  nclass :: nat
  selected_rows :: "nat list"
  weights :: "real list"

text \<open>What the three generators can return on a table of \<open>num_rows\<close> rows.\<close>

definition drawn :: "nat \<Rightarrow> draw \<Rightarrow> bool" where
  "drawn num_rows d =
     ((nclass d = 1 \<or> nclass d = 2)
      \<and> length (selected_rows d) = nclass d
      \<and> distinct (selected_rows d)
      \<and> list_all (\<lambda>i. i < num_rows) (selected_rows d)
      \<and> length (weights d) = nclass d
      \<and> list_all (\<lambda>w. 0 \<le> w) (weights d)
      \<and> sum_list (weights d) = 1)"

text \<open>\<open>unique()\<close>: the distinct values in the order of their first occurrence.\<close>

definition unique :: "'a list \<Rightarrow> 'a list" where
  "unique xs = rev (remdups (rev xs))"

text \<open>
  Line 63, \<open>pivot_table(index=weight_df.index, columns='Category', values='weight',
  aggfunc='sum')\<close>: one column for each category of \<open>weight_df\<close>, in ascending order,
  and one row for each row of \<open>weight_df\<close>, holding the row's weight in the column of
  its category and NaN in the others.
\<close>

definition pivot_table :: "(string \<times> real) list \<Rightarrow> (string \<times> fl list) list" where
  "pivot_table weight_df =
     map (\<lambda>c. (c, map (\<lambda>r. if fst r = c then Fin (snd r) else NaN) weight_df))
         (sort (remdups (map fst weight_df)))"

text \<open>Lines 69 to 71: a column of zeros for every class the table has no column of.\<close>

definition add_missing :: "nat \<Rightarrow> string list \<Rightarrow> (string \<times> real list) list
    \<Rightarrow> (string \<times> real list) list" where
  "add_missing n all_class pivot_df =
     foldl (\<lambda>p cls. if cls \<in> set (map fst p) then p else p @ [(cls, replicate n 0)])
           pivot_df all_class"

text \<open>Lines 59 to 74: the label of one synthetic row, a value for each class.\<close>

definition class_proportions :: "string list \<Rightarrow> string list \<Rightarrow> real list
    \<Rightarrow> (string \<times> real) list" where
  "class_proportions all_class class_vector ws =
     (let weight_df = zip class_vector ws;
          pivot_df = map (\<lambda>col. (fst col, map (nan_to_num 0) (snd col))) (pivot_table weight_df);
          pivot_df = add_missing (length weight_df) all_class pivot_df
      in map (\<lambda>col. (fst col, sum_list (snd col))) (sort_key fst pivot_df))"

text \<open>Line 56: the weighted sum of the selected rows, column by column.\<close>

definition weighted_sum :: "real list list \<Rightarrow> real list \<Rightarrow> real list" where
  "weighted_sum rows ws =
     (case rows of
        [] \<Rightarrow> []
      | r # _ \<Rightarrow> map (\<lambda>j. sum_list (map2 (\<lambda>row w. w * row ! j) rows ws)) [0..<length r])"

text \<open>
  One iteration of the loop of \<open>mix_fast\<close>: the new feature vector and the label.
  \<open>choice\<close> raises ValueError when it is asked for more rows than the table has.
\<close>

definition mix_row :: "spectral_row list \<Rightarrow> draw \<Rightarrow> error + real list \<times> (string \<times> real) list" where
  "mix_row df d =
     (if length df < nclass d then Inl ValueError
      else Inr (weighted_sum (map (\<lambda>i. fst (df ! i)) (selected_rows d)) (weights d),
                class_proportions (unique (map snd df))
                  (map (\<lambda>i. snd (df ! i)) (selected_rows d)) (weights d)))"

text \<open>
  \<open>mix_fast(df, nsamp)\<close>, with the draws of the \<open>nsamp\<close> iterations. \<open>pd.concat\<close>
  raises ValueError on an empty list.
\<close>

definition mix_fast :: "spectral_row list \<Rightarrow> draw list
    \<Rightarrow> error + (real list \<times> (string \<times> real) list) list" where
  "mix_fast df draws =
     (case collect (map (mix_row df) draws) of
        Inl e \<Rightarrow> Inl e
      | Inr df_synthetic \<Rightarrow> if df_synthetic = [] then Inl ValueError else Inr df_synthetic)"

section \<open>unmix_image\<close>




text \<open>
  \<open>apply_ufunc\<close> runs \<open>pred_chunk\<close> on every tile and declares the result
  \<open>np.uint8\<close> (line 92). The mask pass of lines 98 and 99 works on that lazy result: it
  converts the predictions and the sentinel -9999 to one integer dtype, which numpy
  chooses. That conversion is not modelled here.
\<close>

text \<open>
  Lines 118 to 124. \<open>to_dataset(dim="class")\<close> makes one 2-D variable of each class,
  \<open>fillna(255)\<close> replaces NaN, and \<open>astype("int8")\<close> narrows to the signed 8-bit type:
  the value is truncated towards zero and keeps its low 8 bits, read as two's
  complement by \<open>sint\<close>.
\<close>

definition fillna :: "real \<Rightarrow> fl \<Rightarrow> real" where
  "fillna d v = (case v of NaN \<Rightarrow> d | Fin x \<Rightarrow> x)"

definition astype_int8 :: "real \<Rightarrow> 8 word" where
  "astype_int8 x = word_of_int (if 0 \<le> x then \<lfloor>x\<rfloor> else \<lceil>x\<rceil>)"

definition abundance_raster :: "string list \<Rightarrow> arr3 \<Rightarrow> error + (string \<times> int list list) list" where
  "abundance_raster classes res =
     (if length classes = nbands res
      then Inr (map (\<lambda>(k, name).
                       (name, map (map (\<lambda>cell. sint (astype_int8 (fillna 255 (cell ! k))))) res))
                    (enumerate 0 classes))
      else Inl ValueError)"

section \<open>Properties\<close>

lemma collect_Inr_length: "collect xs = Inr vs \<Longrightarrow> length vs = length xs"
  by (induction xs arbitrary: vs) (auto split: sum.splits)

lemma collect_Inr_nth: "collect xs = Inr vs \<Longrightarrow> i < length xs \<Longrightarrow> xs ! i = Inr (vs ! i)"
proof (induction xs arbitrary: vs i)
  case Nil
  then show ?case by simp
next
  case (Cons x xs)
  then show ?case
    by (cases i) (auto split: sum.splits)
qed

subsection \<open>apply_glt writes into its GLT argument\<close>

lemma apply_glt_fst: "fst (apply_glt ds g fill_value nodata) = map (map (decrement nodata)) g"
  by (simp add: apply_glt_def Let_def)

text \<open>
  C10: \<open>apply_glt\<close> changes its \<open>glt_array\<close> argument in place. After a call, also one
  that raised, both components of every cell that was valid (both different from
  \<open>GLT_NODATA_VALUE\<close>) are one less than before (in 64-bit arithmetic), so the array
  the caller holds is no longer the array it passed.
\<close>

theorem apply_glt_decrements_argument:
  assumes "r < length glt_array" and "c < length (glt_array ! r)"
    and "valid_glt nodata (glt_array ! r ! c)"
  shows "fst (apply_glt ds glt_array fill_value nodata) ! r ! c
           = (fst (glt_array ! r ! c) - 1, snd (glt_array ! r ! c) - 1)
         \<and> fst (apply_glt ds glt_array fill_value nodata) \<noteq> glt_array"
proof -
  let ?g = "fst (apply_glt ds glt_array fill_value nodata)"
  have cell: "?g ! r ! c = (fst (glt_array ! r ! c) - 1, snd (glt_array ! r ! c) - 1)"
    using assms by (simp add: apply_glt_fst decrement_def)
  have "?g ! r ! c \<noteq> glt_array ! r ! c"
    unfolding cell by (cases "glt_array ! r ! c") simp
  then have "?g \<noteq> glt_array" by auto
  with cell show ?thesis by simp
qed

text \<open>
  A 2 by 2 GLT over a source of one pixel: the cell (1, 1) becomes (0, 0), and the array
  is changed although the call raises IndexError at the cell (1, 2).
\<close>

theorem apply_glt_decrements_argument_witness:
  "valid_glt 0 ([[(1, 1), (0, 0)], [(1, 2), (2, 2)]] ! 0 ! 0)
   \<and> fst (apply_glt (A2 [[Fin 5]]) [[(1, 1), (0, 0)], [(1, 2), (2, 2)]] (- 9999) 0) ! 0 ! 0 = (0, 0)
   \<and> fst (apply_glt (A2 [[Fin 5]]) [[(1, 1), (0, 0)], [(1, 2), (2, 2)]] (- 9999) 0)
       \<noteq> [[(1, 1), (0, 0)], [(1, 2), (2, 2)]]
   \<and> snd (apply_glt (A2 [[Fin 5]]) [[(1, 1), (0, 0)], [(1, 2), (2, 2)]] (- 9999) 0) = Inl IndexError"
proof -
  have v: "valid_glt 0 ([[(1, 1), (0, 0)], [(1, 2), (2, 2)]] ! 0 ! 0)"
    by (simp add: valid_glt_def)
  have e: "snd (apply_glt (A2 [[Fin 5]]) [[(1, 1), (0, 0)], [(1, 2), (2, 2)]] (- 9999) 0) = Inl IndexError"
    by (simp add: apply_glt_def out_cell_def valid_glt_def decrement_def gather_def np_index_def
        newaxis_def ncols_def)
  show ?thesis
    using v e apply_glt_decrements_argument [of 0 "[[(1, 1), (0, 0)], [(1, 2), (2, 2)]]" 0 0
        "A2 [[Fin 5]]" "- 9999"]
    by simp
qed

subsection \<open>ortho_xr: cells without a GLT entry\<close>

lemma decrement_invalid: "\<not> valid_glt nodata g \<Longrightarrow> decrement nodata g = g"
  by (simp add: decrement_def)

lemma apply_glt_Inr_cell:
  assumes "snd (apply_glt ds g fill_value nodata) = Inr out"
    and "r < length g" and "c < length (g ! r)"
  shows "length out = length g \<and> length (out ! r) = length (g ! r)
    \<and> out_cell (case ds of A2 m \<Rightarrow> newaxis m | A3 a \<Rightarrow> a) (case ds of A2 m \<Rightarrow> 1 | A3 a \<Rightarrow> nbands a)
         fill_value nodata (g ! r ! c) = Inr (out ! r ! c)"
proof -
  let ?cell = "out_cell (case ds of A2 m \<Rightarrow> newaxis m | A3 a \<Rightarrow> a)
      (case ds of A2 m \<Rightarrow> 1 | A3 a \<Rightarrow> nbands a) fill_value nodata"
  have rows: "collect (map (\<lambda>row. collect (map ?cell row)) g) = Inr out"
    using assms(1) by (simp add: apply_glt_def Let_def)
  have len: "length out = length g"
    using collect_Inr_length [OF rows] by simp
  have row: "collect (map ?cell (g ! r)) = Inr (out ! r)"
    using collect_Inr_nth [OF rows, of r] assms(2) by simp
  have len_r: "length (out ! r) = length (g ! r)"
    using collect_Inr_length [OF row] by simp
  have "?cell (g ! r ! c) = Inr (out ! r ! c)"
    using collect_Inr_nth [OF row, of c] assms(3) by simp
  with len len_r show ?thesis by simp
qed

lemma apply_glt_invalid_cell:
  assumes "snd (apply_glt ds g fill_value nodata) = Inr out"
    and "r < length g" and "c < length (g ! r)"
    and "\<not> valid_glt nodata (g ! r ! c)"
  shows "out ! r ! c = replicate (case ds of A2 m \<Rightarrow> 1 | A3 a \<Rightarrow> nbands a) (Fin fill_value)"
  using apply_glt_Inr_cell [OF assms(1-3)] assms(4) by (simp add: out_cell_def)

lemma apply_glt_keeps_invalid:
  assumes "r < length g" and "c < length (g ! r)" and "\<not> valid_glt nodata (g ! r ! c)"
  shows "r < length (fst (apply_glt ds g fill_value nodata))
    \<and> c < length (fst (apply_glt ds g fill_value nodata) ! r)
    \<and> fst (apply_glt ds g fill_value nodata) ! r ! c = g ! r ! c"
  using assms by (simp add: apply_glt_fst decrement_invalid)

lemma mask_fill_cell:
  "r < length out \<Longrightarrow> c < length (out ! r) \<Longrightarrow>
   mask_fill fill_value out ! r ! c = map (fill_nan fill_value) (out ! r ! c)"
  by (simp add: mask_fill_def)

lemma fill_nan_fill: "fill_nan fill_value (Fin fill_value) = NaN"
  by (simp add: fill_nan_def fl_eq_def)

lemma ortho_loop_invalid:
  assumes "ortho_loop fill_value nodata g vars = (g', Inr outs)"
    and "r < length g" and "c < length (g ! r)" and "\<not> valid_glt nodata (g ! r ! c)"
    and "fill_value = - 9999"
  shows "map fst outs = map fst vars
    \<and> (\<forall>v\<in>set outs. case snd v of A2 m \<Rightarrow> m ! r ! c = NaN | A3 a \<Rightarrow> (\<forall>x\<in>set (a ! r ! c). x = NaN))
    \<and> r < length g' \<and> c < length (g' ! r) \<and> g' ! r ! c = g ! r ! c"
  using assms
proof (induction vars arbitrary: g g' outs)
  case Nil
  then show ?case by simp
next
  case (Cons v vars)
  obtain var raw_ds where v: "v = (var, raw_ds)" by (cases v)
  obtain g1 res where ag: "apply_glt raw_ds g (- 9999) nodata = (g1, res)"
    by (cases "apply_glt raw_ds g (- 9999) nodata")
  from Cons.prems(1) v ag obtain out_ds where res: "res = Inr out_ds"
    by (cases res) auto
  obtain g2 res2 where ol: "ortho_loop fill_value nodata g1 vars = (g2, res2)"
    by (cases "ortho_loop fill_value nodata g1 vars")
  from Cons.prems(1) v ag res ol obtain vs where res2: "res2 = Inr vs"
    by (cases res2) auto
  have g': "g' = g2"
    and outs: "outs = (var, (case raw_ds of
                         A2 m \<Rightarrow> A2 (squeeze (mask_fill fill_value out_ds))
                       | A3 a \<Rightarrow> A3 (mask_fill fill_value out_ds))) # vs"
    using Cons.prems(1) v ag res ol res2 by auto
  have g1: "g1 = fst (apply_glt raw_ds g (- 9999) nodata)"
    using ag by simp
  have snd_ag: "snd (apply_glt raw_ds g (- 9999) nodata) = Inr out_ds"
    using ag res by simp
  have keep: "r < length g1 \<and> c < length (g1 ! r) \<and> g1 ! r ! c = g ! r ! c"
    unfolding g1 using apply_glt_keeps_invalid [OF Cons.prems(2-4)] by simp
  then have inv1: "\<not> valid_glt nodata (g1 ! r ! c)"
    using Cons.prems(4) by simp
  have IH: "map fst vs = map fst vars
    \<and> (\<forall>v\<in>set vs. case snd v of A2 m \<Rightarrow> m ! r ! c = NaN | A3 a \<Rightarrow> (\<forall>x\<in>set (a ! r ! c). x = NaN))
    \<and> r < length g2 \<and> c < length (g2 ! r) \<and> g2 ! r ! c = g1 ! r ! c"
    using Cons.IH [of g1 g2 vs] ol res2 keep inv1 Cons.prems(5) by simp
  have shape: "length out_ds = length g \<and> length (out_ds ! r) = length (g ! r)"
    using apply_glt_Inr_cell [OF snd_ag Cons.prems(2,3)] by simp
  have cell: "out_ds ! r ! c = replicate (case raw_ds of A2 m \<Rightarrow> 1 | A3 a \<Rightarrow> nbands a) (Fin (- 9999))"
    using apply_glt_invalid_cell [OF snd_ag Cons.prems(2-4)] .
  have masked: "mask_fill fill_value out_ds ! r ! c
      = replicate (case raw_ds of A2 m \<Rightarrow> 1 | A3 a \<Rightarrow> nbands a) NaN"
    using shape Cons.prems(2,3,5) cell by (simp add: mask_fill_cell fill_nan_fill)
  have here: "case raw_ds of
        A2 m \<Rightarrow> squeeze (mask_fill fill_value out_ds) ! r ! c = NaN
      | A3 a \<Rightarrow> (\<forall>x\<in>set (mask_fill fill_value out_ds ! r ! c). x = NaN)"
  proof (cases raw_ds)
    case (A2 m)
    have "r < length (mask_fill fill_value out_ds)"
      and "c < length (mask_fill fill_value out_ds ! r)"
      using shape Cons.prems(2,3) by (simp_all add: mask_fill_def)
    then have "squeeze (mask_fill fill_value out_ds) ! r ! c = hd (mask_fill fill_value out_ds ! r ! c)"
      by (simp add: squeeze_def)
    with masked A2 show ?thesis by simp
  next
    case (A3 a)
    with masked show ?thesis by simp
  qed
  show ?case
    using IH keep here unfolding g' outs v by (cases raw_ds) simp_all
qed

lemma stack_glt_cell:
  assumes "stack_glt nodata gx gy = Inr g" and "r < length gx" and "c < length (gx ! r)"
  shows "length g = length gx \<and> length (g ! r) = length (gx ! r)
    \<and> g ! r ! c = (astype_int (nan_to_num (of_int nodata) (gx ! r ! c)),
                   astype_int (nan_to_num (of_int nodata) (gy ! r ! c)))"
proof -
  have eq: "map length gx = map length gy"
    using assms(1) by (simp add: stack_glt_def split: if_splits)
  then have len: "length gx = length gy"
    by (metis length_map)
  have len_r: "length (gx ! r) = length (gy ! r)"
    using eq assms(2) len by (metis nth_map)
  have g: "g = map2 (map2 (\<lambda>x y. (astype_int (nan_to_num (of_int nodata) x),
                                      astype_int (nan_to_num (of_int nodata) y)))) gx gy"
    using assms(1) eq by (simp add: stack_glt_def)
  show ?thesis
    unfolding g using assms(2,3) len len_r by simp
qed

lemma astype_int_0: "sint (astype_int 0) = 0"
  by (simp add: astype_int_def)

text \<open>
  With the defaults (\<open>GLT_NODATA_VALUE = 0\<close>, \<open>fill_value = -9999\<close>), whenever
  \<open>ortho_xr\<close> returns, every data variable it has remapped (all but
  \<open>flat_field_update\<close>) and the elevation are NaN, in every band, at every cell whose
  \<open>glt_x\<close> or \<open>glt_y\<close> is the no-data value 0 (or NaN, which line 193 turns into 0).
\<close>

lemma ortho_xr_invalid_glt_is_nan:
  assumes "ortho_xr ds 0 (- 9999) = Inr out"
    and "r < length (glt_x ds)" and "c < length (glt_x ds ! r)"
    and "nan_to_num 0 (glt_x ds ! r ! c) = 0 \<or> nan_to_num 0 (glt_y ds ! r ! c) = 0"
  shows "map fst (ortho_vars out)
           = map fst (filter (\<lambda>v. fst v \<noteq> ''flat_field_update'') (data_vars ds))
    \<and> (\<forall>v\<in>set (ortho_vars out).
          case snd v of A2 m \<Rightarrow> m ! r ! c = NaN | A3 a \<Rightarrow> (\<forall>x\<in>set (a ! r ! c). x = NaN))
    \<and> ortho_elev out ! r ! c = NaN"
proof -
  let ?vars = "filter (\<lambda>v. fst v \<noteq> ''flat_field_update'') (data_vars ds)"
  from assms(1) obtain g where st: "stack_glt 0 (glt_x ds) (glt_y ds) = Inr g"
    by (cases "stack_glt 0 (glt_x ds) (glt_y ds)") (auto simp: ortho_xr_def)
  obtain g1 res where ol: "ortho_loop (- 9999) 0 g ?vars = (g1, res)"
    by (cases "ortho_loop (- 9999) 0 g ?vars")
  from assms(1) st ol obtain vars where res: "res = Inr vars"
    by (cases res) (auto simp: ortho_xr_def Let_def)
  obtain g2 res2 where ae: "apply_glt (A2 (elev ds)) g1 (- 9999) 0 = (g2, res2)"
    by (cases "apply_glt (A2 (elev ds)) g1 (- 9999) 0")
  from assms(1) st ol res ae obtain elev_ds where res2: "res2 = Inr elev_ds"
    by (cases res2) (auto simp: ortho_xr_def Let_def)
  have out: "out = \<lparr>ortho_vars = vars, ortho_elev = squeeze (mask_fill (- 9999) elev_ds)\<rparr>"
    using assms(1) st ol res ae res2 by (auto simp: ortho_xr_def Let_def split: if_splits)
  have cell: "length g = length (glt_x ds) \<and> length (g ! r) = length (glt_x ds ! r)
    \<and> g ! r ! c = (astype_int (nan_to_num 0 (glt_x ds ! r ! c)),
                   astype_int (nan_to_num 0 (glt_y ds ! r ! c)))"
    using stack_glt_cell [OF st assms(2,3)] by simp
  then have rg: "r < length g" and cg: "c < length (g ! r)"
    using assms(2,3) by simp_all
  have inv: "\<not> valid_glt 0 (g ! r ! c)"
    using cell assms(4) by (auto simp: valid_glt_def astype_int_0)
  have loop: "map fst vars = map fst ?vars
    \<and> (\<forall>v\<in>set vars. case snd v of A2 m \<Rightarrow> m ! r ! c = NaN | A3 a \<Rightarrow> (\<forall>x\<in>set (a ! r ! c). x = NaN))
    \<and> r < length g1 \<and> c < length (g1 ! r) \<and> g1 ! r ! c = g ! r ! c"
    using ortho_loop_invalid [OF _ rg cg inv, of "- 9999" ?vars g1 vars] ol res by simp
  then have rg1: "r < length g1" and cg1: "c < length (g1 ! r)"
    and inv1: "\<not> valid_glt 0 (g1 ! r ! c)"
    using inv by simp_all
  have snd_ae: "snd (apply_glt (A2 (elev ds)) g1 (- 9999) 0) = Inr elev_ds"
    using ae res2 by simp
  have shape: "length elev_ds = length g1 \<and> length (elev_ds ! r) = length (g1 ! r)"
    using apply_glt_Inr_cell [OF snd_ae rg1 cg1] by simp
  have "elev_ds ! r ! c = replicate 1 (Fin (- 9999))"
    using apply_glt_invalid_cell [OF snd_ae rg1 cg1 inv1] by simp
  then have "mask_fill (- 9999) elev_ds ! r ! c = [NaN]"
    using shape rg1 cg1 by (simp add: mask_fill_cell fill_nan_fill)
  moreover have "r < length (mask_fill (- 9999) elev_ds)"
    and "c < length (mask_fill (- 9999) elev_ds ! r)"
    using shape rg1 cg1 by (simp_all add: mask_fill_def)
  ultimately have "squeeze (mask_fill (- 9999) elev_ds) ! r ! c = NaN"
    by (simp add: squeeze_def)
  with loop show ?thesis
    unfolding out by simp
qed


text \<open>A 2 by 2 GLT whose first cell has no entry, over one variable of two bands.\<close>

lemma ortho_xr_invalid_glt_is_nan_example:
  "ortho_xr \<lparr>data_vars = [(''reflectance'', A3 [[[Fin 0.1, Fin 0.2], [Fin 0.3, Fin 0.4]],
                                                 [[Fin 0.5, Fin 0.6], [Fin 0.7, Fin 0.8]]])],
             glt_x = [[Fin 0, Fin 2], [Fin 1, Fin 2]],
             glt_y = [[Fin 0, Fin 1], [Fin 2, Fin 2]],
             elev = [[Fin 10, Fin 20], [Fin 30, Fin 40]]\<rparr> 0 (- 9999)
     = Inr \<lparr>ortho_vars = [(''reflectance'', A3 [[[NaN, NaN], [Fin 0.3, Fin 0.4]],
                                                  [[Fin 0.5, Fin 0.6], [Fin 0.7, Fin 0.8]]])],
            ortho_elev = [[NaN, NaN], [NaN, Fin 10]]\<rparr>
   \<and> nan_to_num 0 ([[Fin 0, Fin 2], [Fin 1, Fin 2]] ! 0 ! 0) = 0
   \<and> [[NaN, NaN], [NaN, Fin 10]] ! 0 ! 0 = NaN"
proof -
  let ?ds = "\<lparr>data_vars = [(''reflectance'', A3 [[[Fin 0.1, Fin 0.2], [Fin 0.3, Fin 0.4]],
                                                 [[Fin 0.5, Fin 0.6], [Fin 0.7, Fin 0.8]]])],
             glt_x = [[Fin 0, Fin 2], [Fin 1, Fin 2]],
             glt_y = [[Fin 0, Fin 1], [Fin 2, Fin 2]],
             elev = [[Fin 10, Fin 20], [Fin 30, Fin 40]]\<rparr>"
  let ?out = "\<lparr>ortho_vars = [(''reflectance'', A3 [[[NaN, NaN], [Fin 0.3, Fin 0.4]],
                                                  [[Fin 0.5, Fin 0.6], [Fin 0.7, Fin 0.8]]])],
            ortho_elev = [[NaN, NaN], [NaN, Fin 10]]\<rparr>"
  have run: "ortho_xr ?ds 0 (- 9999) = Inr ?out"
    by (simp add: ortho_xr_def stack_glt_def nan_to_num_def astype_int_def apply_glt_def
        out_cell_def valid_glt_def decrement_def gather_def np_index_def newaxis_def ncols_def
        nbands_def mask_fill_def fill_nan_def fl_eq_def squeeze_def Let_def)
  have hyp: "nan_to_num 0 (glt_x ?ds ! 0 ! 0) = 0 \<or> nan_to_num 0 (glt_y ?ds ! 0 ! 0) = 0"
    by (simp add: nan_to_num_def)
  have "ortho_elev ?out ! 0 ! 0 = NaN"
    using ortho_xr_invalid_glt_is_nan [OF run _ _ hyp] by simp
  with run show ?thesis
    by (simp add: nan_to_num_def)
qed


text \<open>
  C3 on the same dataset with \<open>fill_value = -1\<close>. Line 211 passes
  \<open>GLT_NODATA_VALUE\<close> on to \<open>apply_glt\<close> but not \<open>fill_value\<close>, and line 229 passes
  neither, so \<open>apply_glt\<close> fills with its default -9999 while lines 214 and 230 look for
  -1: the cell (0, 0), which has no GLT entry, holds -9999 in every band of the variable
  and in the elevation, not NaN.
\<close>

theorem ortho_xr_fill_value_not_forwarded:
  "ortho_xr \<lparr>data_vars = [(''reflectance'', A3 [[[Fin 0.1, Fin 0.2], [Fin 0.3, Fin 0.4]],
                                                 [[Fin 0.5, Fin 0.6], [Fin 0.7, Fin 0.8]]])],
             glt_x = [[Fin 0, Fin 2], [Fin 1, Fin 2]],
             glt_y = [[Fin 0, Fin 1], [Fin 2, Fin 2]],
             elev = [[Fin 10, Fin 20], [Fin 30, Fin 40]]\<rparr> 0 (- 1)
     = Inr \<lparr>ortho_vars = [(''reflectance'',
                            A3 [[[Fin (- 9999), Fin (- 9999)], [Fin 0.3, Fin 0.4]],
                                [[Fin 0.5, Fin 0.6], [Fin 0.7, Fin 0.8]]])],
            ortho_elev = [[Fin (- 9999), Fin (- 9999)], [Fin (- 9999), Fin 10]]\<rparr>"
  by (simp add: ortho_xr_def stack_glt_def nan_to_num_def astype_int_def apply_glt_def
      out_cell_def valid_glt_def decrement_def gather_def np_index_def newaxis_def ncols_def
      nbands_def mask_fill_def fill_nan_def fl_eq_def squeeze_def Let_def)

subsection \<open>ortho_xr: the variables after the first\<close>

text \<open>
  C2 on an identity GLT with two data variables. The first variable is mapped as the
  claim says: the cell with GLT entry (1, 1) gets the source pixel (0, 0). The calls of
  \<open>apply_glt\<close> for \<open>other\<close> and for the elevation get the GLT array already
  decremented: the cell with entry (1, 1) comes out NaN, and \<open>other\<close> has the source
  pixel (0, 0) at the cell whose entry is (2, 2).
\<close>

theorem ortho_xr_later_variables_misindexed:
  "ortho_xr \<lparr>data_vars = [(''reflectance'', A3 [[[Fin 1], [Fin 2]], [[Fin 3], [Fin 4]]]),
                          (''other'', A2 [[Fin 5, Fin 6], [Fin 7, Fin 8]])],
             glt_x = [[Fin 1, Fin 2], [Fin 1, Fin 2]],
             glt_y = [[Fin 1, Fin 1], [Fin 2, Fin 2]],
             elev = [[Fin 10, Fin 20], [Fin 30, Fin 40]]\<rparr> 0 (- 9999)
     = Inr \<lparr>ortho_vars = [(''reflectance'', A3 [[[Fin 1], [Fin 2]], [[Fin 3], [Fin 4]]]),
                           (''other'', A2 [[NaN, NaN], [NaN, Fin 5]])],
            ortho_elev = [[NaN, NaN], [NaN, NaN]]\<rparr>"
  by (simp add: ortho_xr_def stack_glt_def nan_to_num_def astype_int_def apply_glt_def
      out_cell_def valid_glt_def decrement_def gather_def np_index_def newaxis_def ncols_def
      nbands_def mask_fill_def fill_nan_def fl_eq_def squeeze_def Let_def)


subsection \<open>emit_xarray: the quality mask\<close>

text \<open>
  C1 on a 2 by 2 granule of two bands with a quality mask that flags the pixel (0, 0):
  the returned reflectance at that pixel is the value read from the file, not NaN. (The
  fill value at the pixel (0, 1) is replaced.)
\<close>

theorem emit_xarray_ignores_qmask:
  "emit_xarray \<lparr>data_vars = [(''reflectance'', A3 [[[Fin 0.1, Fin 0.2], [Fin 0.3, Fin (- 9999)]],
                                                   [[Fin 0.5, Fin 0.6], [Fin 0.7, Fin 0.8]]])],
               glt_x = [[Fin 1, Fin 2], [Fin 1, Fin 2]],
               glt_y = [[Fin 1, Fin 1], [Fin 2, Fin 2]],
               elev = [[Fin 10, Fin 20], [Fin 30, Fin 40]]\<rparr>
      False (Some [[Fin 1, Fin 0], [Fin 0, Fin 0]]) None False
     = Inr (Sensor \<lparr>data_vars = [(''reflectance'', A3 [[[Fin 0.1, Fin 0.2], [Fin 0.3, NaN]],
                                                   [[Fin 0.5, Fin 0.6], [Fin 0.7, Fin 0.8]]])],
               glt_x = [[Fin 1, Fin 2], [Fin 1, Fin 2]],
               glt_y = [[Fin 1, Fin 1], [Fin 2, Fin 2]],
               elev = [[Fin 10, Fin 20], [Fin 30, Fin 40]]\<rparr>)"
  by (simp add: emit_xarray_def da_where_def ncols_def map_ndarr_def fill_nan_def fl_eq_def)

subsection \<open>quality_mask: the reserved bands\<close>

lemma collect_map_Inr:
  "(\<And>x. x \<in> set xs \<Longrightarrow> g x = Inr (f x)) \<Longrightarrow> collect (map g xs) = Inr (map f xs)"
  by (induction xs) simp_all

lemma fl_add_zero: "fl_add (Fin 0) v = v"
  by (cases v) (simp_all add: fl_add_def)

lemma take_idx_single:
  "7 < length xs \<Longrightarrow> take_idx xs [7] = Inr [xs ! 7]"
  by (simp add: take_idx_def np_index_def)

lemma build_qmask_single:
  assumes "\<And>row cell. row \<in> set m \<Longrightarrow> cell \<in> set row \<Longrightarrow> 7 < length cell"
  shows "build_qmask m [7] = Inr (map (map (\<lambda>cell. clamp1 (cell ! 7))) m)"
proof -
  have row: "collect (map (\<lambda>cell. case take_idx cell [7] of
                                      Inl e \<Rightarrow> Inl e
                                    | Inr vs \<Rightarrow> Inr (clamp1 (np_sum vs))) row)
             = Inr (map (\<lambda>cell. clamp1 (cell ! 7)) row)" if "row \<in> set m" for row
    using assms [OF that]
    by (intro collect_map_Inr) (simp add: take_idx_single np_sum_def fl_add_zero)
  show ?thesis
    unfolding build_qmask_def by (rule collect_map_Inr) (simp add: row)
qed

text \<open>
  C9: when \<open>quality_bands\<close> contains 5 or 6, \<open>quality_mask\<close> raises, and what it does
  is the same whatever the mask array holds: the array is not read before the raise. On
  a file whose mask has a value for each of its band names at every pixel, and more than
  seven of them, \<open>quality_mask(file, [7])\<close> returns a mask: band 7, clamped to 1, at
  every pixel.
\<close>

theorem quality_mask_reserved_bands:
  "(5 \<in> set quality_bands \<or> 6 \<in> set quality_bands \<longrightarrow>
      (\<exists>e. snd (quality_mask f quality_bands) = Inl e)
      \<and> quality_mask (f\<lparr>mask_data := m\<rparr>) quality_bands = quality_mask f quality_bands)
   \<and> (7 < length (mask_bands f)
       \<and> (\<forall>row\<in>set (mask_data f). \<forall>cell\<in>set row. length cell = length (mask_bands f)) \<longrightarrow>
      quality_mask f [7]
        = ([mask_bands f ! 7], Inr (map (map (\<lambda>cell. clamp1 (cell ! 7))) (mask_data f))))"
proof (intro conjI impI)
  assume "5 \<in> set quality_bands \<or> 6 \<in> set quality_bands"
  then show "\<exists>e. snd (quality_mask f quality_bands) = Inl e"
    by (cases "take_idx (mask_bands f) quality_bands") (auto simp: quality_mask_def)
next
  assume "5 \<in> set quality_bands \<or> 6 \<in> set quality_bands"
  then show "quality_mask (f\<lparr>mask_data := m\<rparr>) quality_bands = quality_mask f quality_bands"
    by (cases "take_idx (mask_bands f) quality_bands") (auto simp: quality_mask_def)
next
  assume wf: "7 < length (mask_bands f)
       \<and> (\<forall>row\<in>set (mask_data f). \<forall>cell\<in>set row. length cell = length (mask_bands f))"
  then have "build_qmask (mask_data f) [7] = Inr (map (map (\<lambda>cell. clamp1 (cell ! 7))) (mask_data f))"
    by (intro build_qmask_single) auto
  with wf show "quality_mask f [7]
        = ([mask_bands f ! 7], Inr (map (map (\<lambda>cell. clamp1 (cell ! 7))) (mask_data f)))"
    by (simp add: quality_mask_def take_idx_single)
qed


text \<open>An EMIT mask of one row and two pixels, with its eight bands.\<close>

theorem quality_mask_reserved_bands_witness:
  "snd (quality_mask
     \<lparr>mask_data = [[[Fin 0, Fin 0, Fin 0, Fin 0, Fin 0, Fin 0.3, Fin 1.7, Fin 1],
                     [Fin 1, Fin 0, Fin 0, Fin 0, Fin 0, Fin 0.2, Fin 1.5, Fin 0]]],
      mask_bands = [''Cloud flag'', ''Cirrus flag'', ''Water flag'', ''Spacecraft Flag'',
                    ''Dilated Cloud Flag'', ''AOD550'', ''H2O (g cm-2)'', ''Aggregate Flag'']\<rparr>
     [0, 5]) = Inl AttributeError
   \<and> quality_mask
     \<lparr>mask_data = [],
      mask_bands = [''Cloud flag'', ''Cirrus flag'', ''Water flag'', ''Spacecraft Flag'',
                    ''Dilated Cloud Flag'', ''AOD550'', ''H2O (g cm-2)'', ''Aggregate Flag'']\<rparr>
     [0, 5]
     = quality_mask
     \<lparr>mask_data = [[[Fin 0, Fin 0, Fin 0, Fin 0, Fin 0, Fin 0.3, Fin 1.7, Fin 1],
                     [Fin 1, Fin 0, Fin 0, Fin 0, Fin 0, Fin 0.2, Fin 1.5, Fin 0]]],
      mask_bands = [''Cloud flag'', ''Cirrus flag'', ''Water flag'', ''Spacecraft Flag'',
                    ''Dilated Cloud Flag'', ''AOD550'', ''H2O (g cm-2)'', ''Aggregate Flag'']\<rparr>
     [0, 5]
   \<and> quality_mask
     \<lparr>mask_data = [[[Fin 0, Fin 0, Fin 0, Fin 0, Fin 0, Fin 0.3, Fin 1.7, Fin 1],
                     [Fin 1, Fin 0, Fin 0, Fin 0, Fin 0, Fin 0.2, Fin 1.5, Fin 0]]],
      mask_bands = [''Cloud flag'', ''Cirrus flag'', ''Water flag'', ''Spacecraft Flag'',
                    ''Dilated Cloud Flag'', ''AOD550'', ''H2O (g cm-2)'', ''Aggregate Flag'']\<rparr>
     [7] = ([''Aggregate Flag''], Inr [[Fin 1, Fin 0]])"
proof -
  let ?f = "\<lparr>mask_data = [[[Fin 0, Fin 0, Fin 0, Fin 0, Fin 0, Fin 0.3, Fin 1.7, Fin 1],
                     [Fin 1, Fin 0, Fin 0, Fin 0, Fin 0, Fin 0.2, Fin 1.5, Fin 0]]],
      mask_bands = [''Cloud flag'', ''Cirrus flag'', ''Water flag'', ''Spacecraft Flag'',
                    ''Dilated Cloud Flag'', ''AOD550'', ''H2O (g cm-2)'', ''Aggregate Flag'']\<rparr>"
  have a: "snd (quality_mask ?f [0, 5]) = Inl AttributeError"
    by (simp add: quality_mask_def take_idx_def np_index_def)
  have hyp: "5 \<in> set [0, 5 :: int] \<or> 6 \<in> set [0, 5 :: int]"
    by simp
  have b: "quality_mask (?f\<lparr>mask_data := []\<rparr>) [0, 5] = quality_mask ?f [0, 5]"
    using quality_mask_reserved_bands [of "[0, 5]" ?f "[]", THEN conjunct1, THEN mp, OF hyp]
    by (rule conjunct2)
  have wf: "7 < length (mask_bands ?f)
       \<and> (\<forall>row\<in>set (mask_data ?f). \<forall>cell\<in>set row. length cell = length (mask_bands ?f))"
    by simp
  have c: "quality_mask ?f [7] = ([''Aggregate Flag''], Inr [[Fin 1, Fin 0]])"
    using quality_mask_reserved_bands [of "[7]" ?f "[]", THEN conjunct2, THEN mp, OF wf]
    by (simp add: clamp1_def fl_gt_def)
  from a b c show ?thesis by simp
qed

subsection \<open>unmix_image: clipping and the final encoding\<close>






text \<open>
  C4 on a raster of 2 by 2 cells and two classes: after \<open>fillna(255)\<close> and
  \<open>astype("int8")\<close> the cells that were NaN hold -1, and no cell of the narrowed raster
  can hold 255, since the type is the signed one.
\<close>

theorem abundance_raster_fill_is_not_255:
  "abundance_raster [''a'', ''b''] [[[Fin 40, NaN], [NaN, Fin 100]], [[Fin 0, Fin 7], [Fin 1, Fin 2]]]
     = Inr [(''a'', [[40, - 1], [0, 1]]), (''b'', [[- 1, 100], [7, 2]])]
   \<and> (\<forall>x. sint (astype_int8 x) \<noteq> 255)"
proof -
  have "sint (astype_int8 x) \<noteq> 255" for x
    using sint_lt [of "astype_int8 x"] by simp
  then show ?thesis
    by (simp add: abundance_raster_def nbands_def ncols_def fillna_def astype_int8_def)
qed

subsection \<open>raw_spatial_crop: the re-indexed GLT\<close>

lemma finite_vals_set: "x \<in> set (finite_vals vs) \<longleftrightarrow> Fin x \<in> set vs"
  by (induction vs rule: finite_vals.induct) auto

lemma fold_min_Min: "fold min xs (x::real) = Min (set (x # xs))"
  by (rule Min.set_eq_fold [symmetric])

lemma nth_concat_ex:
  "v \<in> set (concat a) \<Longrightarrow> \<exists>r<length a. \<exists>c<length (a ! r). a ! r ! c = v"
  by (auto simp: in_set_conv_nth) metis

lemma nth_in_concat: "r < length a \<Longrightarrow> c < length (a ! r) \<Longrightarrow> a ! r ! c \<in> set (concat a)"
  by (auto intro!: bexI [of _ "a ! r"])

lemma nanmin_Cons:
  assumes "finite_vals (concat a) = x # xs"
  shows "nanmin a = Inr (Fin (Min (set (x # xs))))"
proof -
  have "concat a \<noteq> []"
    using assms by (metis finite_vals.simps(1) list.distinct(1))
  with assms show ?thesis
    unfolding nanmin_def by (simp only: if_False list.case fold_min_Min)
qed

lemma reindex_rebased:
  assumes "reindex a = Inr g"
  shows "map length g = map length a
    \<and> (\<forall>r<length a. \<forall>c<length (a ! r).
          (a ! r ! c = NaN \<longrightarrow> g ! r ! c = Fin 0)
          \<and> (a ! r ! c \<noteq> NaN \<longrightarrow> (\<exists>y. g ! r ! c = Fin y \<and> 1 \<le> y)))
    \<and> ((\<exists>v\<in>set (concat a). v \<noteq> NaN) \<longrightarrow>
          (\<exists>r<length a. \<exists>c<length (a ! r). a ! r ! c \<noteq> NaN \<and> g ! r ! c = Fin 1))"
proof -
  from assms obtain m where m: "nanmin a = Inr m"
    and g: "g = map (map (\<lambda>v. Fin (nan_to_num 0 (fl_add (fl_sub v m) (Fin 1))))) a"
    by (cases "nanmin a") (auto simp: reindex_def)
  have cell: "g ! r ! c = Fin (nan_to_num 0 (fl_add (fl_sub (a ! r ! c) m) (Fin 1)))"
    if "r < length a" "c < length (a ! r)" for r c
    using that by (simp add: g)
  have shape: "map length g = map length a"
    by (simp add: g comp_def)
  have nan: "g ! r ! c = Fin 0" if "r < length a" "c < length (a ! r)" "a ! r ! c = NaN" for r c
    using that by (simp add: cell fl_sub_def fl_add_def nan_to_num_def)
  have fin: "\<exists>y. g ! r ! c = Fin y \<and> 1 \<le> y"
    if "r < length a" "c < length (a ! r)" "a ! r ! c \<noteq> NaN" for r c
  proof -
    from that(3) obtain y where y: "a ! r ! c = Fin y" by (cases "a ! r ! c") auto
    then have in_a: "Fin y \<in> set (concat a)"
      using nth_in_concat [OF that(1,2)] by simp
    then have "y \<in> set (finite_vals (concat a))"
      by (simp add: finite_vals_set)
    then obtain x xs where vals: "finite_vals (concat a) = x # xs"
      by (cases "finite_vals (concat a)") auto
    have m': "m = Fin (Min (set (x # xs)))"
      using m nanmin_Cons [OF vals] by simp
    have "Min (set (x # xs)) \<le> y"
      using \<open>y \<in> set (finite_vals (concat a))\<close> vals by (intro Min_le) auto
    then show ?thesis
      using that(1,2) y by (simp add: cell m' fl_sub_def fl_add_def nan_to_num_def)
  qed
  have least: "\<exists>r<length a. \<exists>c<length (a ! r). a ! r ! c \<noteq> NaN \<and> g ! r ! c = Fin 1"
    if "\<exists>v\<in>set (concat a). v \<noteq> NaN"
  proof -
    from that obtain v where v: "v \<in> set (concat a)" "v \<noteq> NaN"
      by blast
    from v(2) obtain y where "v = Fin y"
      by (cases v) simp_all
    with v have in_a: "Fin y \<in> set (concat a)"
      by simp
    then have "y \<in> set (finite_vals (concat a))"
      by (simp add: finite_vals_set)
    then obtain x xs where vals: "finite_vals (concat a) = x # xs"
      by (cases "finite_vals (concat a)") auto
    define mn where "mn = Min (set (x # xs))"
    have m': "m = Fin mn"
      using m nanmin_Cons [OF vals] by (simp only: mn_def sum.inject)
    have "mn \<in> set (x # xs)"
      unfolding mn_def by (rule Min_in) simp_all
    then have "mn \<in> set (finite_vals (concat a))"
      by (simp only: vals)
    then have "Fin mn \<in> set (concat a)"
      by (rule finite_vals_set [THEN iffD1])
    then have "\<exists>r<length a. \<exists>c<length (a ! r). a ! r ! c = Fin mn"
      by (rule nth_concat_ex)
    then obtain r0 c0 where rc: "r0 < length a" "c0 < length (a ! r0)" "a ! r0 ! c0 = Fin mn"
      by (elim exE conjE)
    have "g ! r0 ! c0 = Fin 1"
      using rc by (simp add: cell m' fl_sub_def fl_add_def nan_to_num_def)
    with rc have "r0 < length a \<and> (\<exists>c<length (a ! r0). a ! r0 ! c \<noteq> NaN \<and> g ! r0 ! c = Fin 1)"
      by (intro conjI exI [of _ c0]) simp_all
    then show ?thesis by (rule exI)
  qed
  show ?thesis
  proof (intro conjI allI impI)
    show "map length g = map length a" by (rule shape)
  next
    fix r c assume "r < length a" "c < length (a ! r)" "a ! r ! c = NaN"
    then show "g ! r ! c = Fin 0" by (rule nan)
  next
    fix r c assume "r < length a" "c < length (a ! r)" "a ! r ! c \<noteq> NaN"
    then show "\<exists>y. g ! r ! c = Fin y \<and> 1 \<le> y" by (rule fin)
  next
    assume "\<exists>v\<in>set (concat a). v \<noteq> NaN"
    then show "\<exists>r<length a. \<exists>c<length (a ! r). a ! r ! c \<noteq> NaN \<and> g ! r ! c = Fin 1"
      by (rule least)
  qed
qed

text \<open>
  C6: for each of the two GLT bands, the re-indexed band has the shape of the clipped
  band; it is 0 where the clipped band is NaN; its entries elsewhere are at least 1; and
  when the clipped band has an entry that is not NaN, one of them is re-indexed to 1.
\<close>

theorem reindex_glt_rebased:
  assumes "reindex_glt clipped_glt_x clipped_glt_y = Inr (glt_x_data, glt_y_data)"
    and "(a, g) = (clipped_glt_x, glt_x_data) \<or> (a, g) = (clipped_glt_y, glt_y_data)"
  shows "map length g = map length a
    \<and> (\<forall>r<length a. \<forall>c<length (a ! r).
          (a ! r ! c = NaN \<longrightarrow> g ! r ! c = Fin 0)
          \<and> (a ! r ! c \<noteq> NaN \<longrightarrow> (\<exists>y. g ! r ! c = Fin y \<and> 1 \<le> y)))
    \<and> ((\<exists>v\<in>set (concat a). v \<noteq> NaN) \<longrightarrow>
          (\<exists>r<length a. \<exists>c<length (a ! r). a ! r ! c \<noteq> NaN \<and> g ! r ! c = Fin 1))"
proof -
  from assms(1) have "reindex clipped_glt_x = Inr glt_x_data"
    and "reindex clipped_glt_y = Inr glt_y_data"
    by (auto simp: reindex_glt_def split: sum.splits)
  with assms(2) have "reindex a = Inr g" by auto
  then show ?thesis by (rule reindex_rebased)
qed


text \<open>A clipped GLT of 2 by 2 cells whose first cell was removed by the clip.\<close>

theorem reindex_glt_rebased_witness:
  "reindex_glt [[NaN, Fin 5], [Fin 3, Fin 7]] [[NaN, Fin 11], [Fin 12, Fin 12]]
     = Inr ([[Fin 0, Fin 3], [Fin 1, Fin 5]], [[Fin 0, Fin 1], [Fin 2, Fin 2]])
   \<and> map length [[Fin 0, Fin 1], [Fin 2, Fin 2]] = map length [[NaN, Fin 11], [Fin 12, Fin 12]]"
proof -
  have run: "reindex_glt [[NaN, Fin 5], [Fin 3, Fin 7]] [[NaN, Fin 11], [Fin 12, Fin 12]]
     = Inr ([[Fin 0, Fin 3], [Fin 1, Fin 5]], [[Fin 0, Fin 1], [Fin 2, Fin 2]])"
    by (simp add: reindex_glt_def reindex_def nanmin_def fl_sub_def fl_add_def nan_to_num_def)
  have sel: "([[NaN, Fin 11], [Fin 12, Fin 12]], [[Fin 0, Fin 1], [Fin 2, Fin 2]])
        = ([[NaN, Fin 5], [Fin 3, Fin 7]], [[Fin 0, Fin 3], [Fin 1, Fin 5]])
      \<or> ([[NaN, Fin 11], [Fin 12, Fin 12]], [[Fin 0, Fin 1], [Fin 2, Fin 2]])
        = ([[NaN, Fin 11], [Fin 12, Fin 12]], [[Fin 0, Fin 1], [Fin 2, Fin 2]])"
    by (rule disjI2) (rule refl)
  have "map length [[Fin 0, Fin 1], [Fin 2, Fin 2]] = map length [[NaN, Fin 11], [Fin 12, Fin 12]]"
    using reindex_glt_rebased [OF run sel] by (rule conjunct1)
  with run show ?thesis by (rule conjI)
qed


subsection \<open>extract_points: the residual fill value\<close>





subsection \<open>mix_fast: the label of a synthetic row\<close>

lemma sum_list_delta_notin:
  "c \<notin> set names \<Longrightarrow> sum_list (map (\<lambda>n. if c = n then (w::real) else 0) names) = 0"
  by (induction names) auto

lemma sum_list_delta:
  "distinct names \<Longrightarrow> c \<in> set names \<Longrightarrow>
   sum_list (map (\<lambda>n. if c = n then (w::real) else 0) names) = w"
  by (induction names) (auto simp: sum_list_delta_notin)

lemma column_sum_notin:
  "c \<notin> fst ` set rows \<Longrightarrow>
   sum_list (map (\<lambda>r. if fst r = c then snd r else (0::real)) rows) = 0"
  by (induction rows) auto

lemma column_sum_nonneg:
  "(\<And>r. r \<in> set rows \<Longrightarrow> 0 \<le> snd r) \<Longrightarrow>
   0 \<le> sum_list (map (\<lambda>r. if fst r = c then snd r else (0::real)) rows)"
  by (induction rows) auto

lemma column_sums_total:
  assumes "distinct names" and "fst ` set rows \<subseteq> set names"
  shows "sum_list (map (\<lambda>c. sum_list (map (\<lambda>r. if fst r = c then snd r else (0::real)) rows)) names)
         = sum_list (map snd rows)"
  using assms(2)
proof (induction rows)
  case Nil
  then show ?case by simp
next
  case (Cons r rows)
  have "sum_list (map (\<lambda>c. sum_list (map (\<lambda>r. if fst r = c then snd r else 0) (r # rows))) names)
      = sum_list (map (\<lambda>c. (if fst r = c then snd r else 0)
                              + sum_list (map (\<lambda>r. if fst r = c then snd r else 0) rows)) names)"
    by simp
  also have "\<dots> = sum_list (map (\<lambda>c. if fst r = c then snd r else 0) names)
      + sum_list (map (\<lambda>c. sum_list (map (\<lambda>r. if fst r = c then snd r else 0) rows)) names)"
    by (rule sum_list_addf)
  also have "sum_list (map (\<lambda>c. if fst r = c then snd r else 0) names) = snd r"
    using assms(1) Cons.prems by (intro sum_list_delta) auto
  also have "sum_list (map (\<lambda>c. sum_list (map (\<lambda>r. if fst r = c then snd r else 0) rows)) names)
      = sum_list (map snd rows)"
    using Cons.prems by (intro Cons.IH) auto
  finally show ?case by simp
qed

lemma pivot_table_filled:
  "map (\<lambda>col. (fst col, map (nan_to_num 0) (snd col))) (pivot_table rows)
   = map (\<lambda>c. (c, map (\<lambda>r. if fst r = c then snd r else 0) rows)) (sort (remdups (map fst rows)))"
  by (simp add: pivot_table_def comp_def nan_to_num_def if_distrib cong: if_cong)

lemma add_missing_columns:
  assumes "distinct (map fst t)"
    and "\<forall>col\<in>set t. sum_list (snd col) = sum_list (map (\<lambda>r. if fst r = fst col then snd r else 0) rows)"
    and "fst ` set rows \<subseteq> set (map fst t)"
  shows "distinct (map fst (add_missing n all_class t))
    \<and> (\<forall>col\<in>set (add_missing n all_class t).
          sum_list (snd col) = sum_list (map (\<lambda>r. if fst r = fst col then snd r else 0) rows))
    \<and> set (map fst (add_missing n all_class t)) = set (map fst t) \<union> set all_class"
  using assms
proof (induction all_class arbitrary: t)
  case Nil
  then show ?case by (simp add: add_missing_def)
next
  case (Cons cls all_class)
  let ?t = "if cls \<in> set (map fst t) then t else t @ [(cls, replicate n 0)]"
  have step: "add_missing n (cls # all_class) t = add_missing n all_class ?t"
    by (simp add: add_missing_def)
  have d: "distinct (map fst ?t)"
    using Cons.prems(1) by auto
  have s: "\<forall>col\<in>set ?t. sum_list (snd col)
      = sum_list (map (\<lambda>r. if fst r = fst col then snd r else 0) rows)"
  proof (cases "cls \<in> set (map fst t)")
    case True
    then show ?thesis using Cons.prems(2) by simp
  next
    case False
    then have "cls \<notin> fst ` set rows"
      using Cons.prems(3) by auto
    then have "sum_list (map (\<lambda>r. if fst r = cls then snd r else 0) rows) = 0"
      by (rule column_sum_notin)
    then show ?thesis using False Cons.prems(2) by (auto simp: sum_list_replicate)
  qed
  have sub: "fst ` set rows \<subseteq> set (map fst ?t)"
    using Cons.prems(3) by auto
  have names: "set (map fst ?t) \<union> set all_class = set (map fst t) \<union> set (cls # all_class)"
    by auto
  show ?case
    unfolding step using Cons.IH [OF d s sub] names by simp
qed

lemma map_insort_key: "map f (insort_key f x ys) = insort (f x) (map f ys)"
  by (induction ys) simp_all

lemma map_sort_key: "map f (sort_key f xs) = sort (map f xs)"
  by (induction xs) (simp_all add: map_insort_key)

lemma sum_list_sort_key:
  assumes "distinct xs"
  shows "sum_list (map g (sort_key f xs)) = sum_list (map (g :: 'a \<Rightarrow> real) xs)"
proof -
  have "sum_list (map g (sort_key f xs)) = sum g (set (sort_key f xs))"
    using assms by (intro sum_list_distinct_conv_sum_set) simp
  also have "\<dots> = sum g (set xs)"
    by simp
  also have "\<dots> = sum_list (map g xs)"
    using assms by (rule sum_list_distinct_conv_sum_set [symmetric])
  finally show ?thesis .
qed

lemma class_proportions_label:
  assumes "length cv = length ws"
  shows "sorted (map fst (class_proportions all_class cv ws))
    \<and> distinct (map fst (class_proportions all_class cv ws))
    \<and> set (map fst (class_proportions all_class cv ws)) = set cv \<union> set all_class
    \<and> sum_list (map snd (class_proportions all_class cv ws)) = sum_list ws
    \<and> (\<forall>col\<in>set (class_proportions all_class cv ws).
          snd col = sum_list (map (\<lambda>r. if fst r = fst col then snd r else 0) (zip cv ws)))"
proof -
  define rows where "rows = zip cv ws"
  define t0 where
    "t0 = map (\<lambda>c. (c, map (\<lambda>r. if fst r = c then snd r else 0) rows)) (sort (remdups (map fst rows)))"
  define t where "t = add_missing (length rows) all_class t0"
  define label where "label = class_proportions all_class cv ws"
  have fst_rows: "map fst rows = cv" and snd_rows: "map snd rows = ws"
    using assms by (simp_all add: rows_def)
  have label: "label = map (\<lambda>col. (fst col, sum_list (snd col))) (sort_key fst t)"
    unfolding label_def class_proportions_def Let_def pivot_table_filled
    by (simp only: t_def t0_def rows_def)
  have names0: "map fst t0 = sort (remdups (map fst rows))"
    by (simp add: t0_def comp_def)
  have d0: "distinct (map fst t0)"
    by (simp add: names0)
  have s0: "\<forall>col\<in>set t0. sum_list (snd col)
      = sum_list (map (\<lambda>r. if fst r = fst col then snd r else 0) rows)"
    by (auto simp: t0_def)
  have sub0: "fst ` set rows \<subseteq> set (map fst t0)"
    by (simp add: names0)
  have t: "distinct (map fst t)
    \<and> (\<forall>col\<in>set t. sum_list (snd col) = sum_list (map (\<lambda>r. if fst r = fst col then snd r else 0) rows))
    \<and> set (map fst t) = set (map fst t0) \<union> set all_class"
    unfolding t_def by (rule add_missing_columns [OF d0 s0 sub0])
  then have dt: "distinct (map fst t)"
    and st: "\<And>col. col \<in> set t \<Longrightarrow>
      sum_list (snd col) = sum_list (map (\<lambda>r. if fst r = fst col then snd r else 0) rows)"
    and nt: "set (map fst t) = set cv \<union> set all_class"
    using fst_rows by (simp_all add: names0)
  have "fst ` set rows = set cv"
    by (simp add: fst_rows [symmetric])
  then have sub: "fst ` set rows \<subseteq> set (map fst t)"
    unfolding nt by blast
  have names: "map fst label = sort (map fst t)"
    by (simp add: label comp_def map_sort_key)
  have 1: "sorted (map fst label)" and 2: "distinct (map fst label)"
    and 3: "set (map fst label) = set cv \<union> set all_class"
    using dt nt by (simp_all add: names)
  have "distinct t"
    using dt by (simp add: distinct_map)
  then have "sum_list (map snd label) = sum_list (map (\<lambda>col. sum_list (snd col)) t)"
    by (simp add: label comp_def sum_list_sort_key)
  also have "\<dots> = sum_list (map (\<lambda>col. sum_list (map (\<lambda>r. if fst r = fst col then snd r else 0) rows)) t)"
    by (rule arg_cong [where f = sum_list], rule map_cong) (simp_all add: st)
  also have "\<dots> = sum_list (map (\<lambda>c. sum_list (map (\<lambda>r. if fst r = c then snd r else 0) rows)) (map fst t))"
    by (simp add: comp_def)
  also have "\<dots> = sum_list (map snd rows)"
    using dt sub by (rule column_sums_total)
  finally have 4: "sum_list (map snd label) = sum_list ws"
    by (simp add: snd_rows)
  have 5: "\<forall>col\<in>set label.
      snd col = sum_list (map (\<lambda>r. if fst r = fst col then snd r else 0) rows)"
    using st by (auto simp: label)
  from 1 2 3 4 5 show ?thesis
    unfolding label_def rows_def by blast
qed

text \<open>
  C8: for every row that \<open>mix_fast\<close> returns, whatever the generators drew: the label
  has one entry for each class of the input table, in ascending order of the class
  names; the entries sum to 1; every entry is nonnegative; and the entry of a class that
  is not the class of a selected row is 0.
\<close>

theorem mix_fast_label:
  assumes "mix_fast df draws = Inr df_synthetic"
    and "list_all (drawn (length df)) draws"
    and "i < length df_synthetic"
  shows "length df_synthetic = length draws
    \<and> sum_list (map snd (snd (df_synthetic ! i))) = 1
    \<and> sorted (map fst (snd (df_synthetic ! i)))
    \<and> distinct (map fst (snd (df_synthetic ! i)))
    \<and> set (map fst (snd (df_synthetic ! i))) = set (map snd df)
    \<and> (\<forall>col\<in>set (snd (df_synthetic ! i)).
          0 \<le> snd col
          \<and> (fst col \<notin> set (map (\<lambda>j. snd (df ! j)) (selected_rows (draws ! i))) \<longrightarrow> snd col = 0))"
proof -
  define d where "d = draws ! i"
  define picked where "picked = map (\<lambda>j. snd (df ! j)) (selected_rows d)"
  define label where "label = snd (df_synthetic ! i)"
  have rows: "collect (map (mix_row df) draws) = Inr df_synthetic"
    using assms(1) by (auto simp: mix_fast_def split: sum.splits if_splits)
  have len: "length df_synthetic = length draws"
    using collect_Inr_length [OF rows] by simp
  have "mix_row df d = Inr (df_synthetic ! i)"
    using collect_Inr_nth [OF rows, of i] assms(3) len by (simp add: d_def)
  then have "df_synthetic ! i
      = (weighted_sum (map (\<lambda>i. fst (df ! i)) (selected_rows d)) (weights d),
         class_proportions (unique (map snd df)) picked (weights d))"
    by (simp add: mix_row_def picked_def split: if_splits)
  then have label: "label = class_proportions (unique (map snd df)) picked (weights d)"
    by (simp add: label_def)
  have "drawn (length df) d"
    using assms(2,3) len by (simp add: list_all_length d_def)
  then have sel_len: "length (selected_rows d) = length (weights d)"
    and sel_lt: "\<And>j. j \<in> set (selected_rows d) \<Longrightarrow> j < length df"
    and w_nonneg: "\<And>w. w \<in> set (weights d) \<Longrightarrow> 0 \<le> w"
    and w_sum: "sum_list (weights d) = 1"
    by (simp_all add: drawn_def list_all_iff)
  have plen: "length picked = length (weights d)"
    by (simp add: picked_def sel_len)
  have psub: "set picked \<subseteq> set (map snd df)"
    using sel_lt by (auto simp: picked_def)
  have all_class: "set (unique (map snd df)) = set (map snd df)"
    by (simp add: unique_def)
  note cp = class_proportions_label [OF plen, of "unique (map snd df)", folded label]
  have 1: "sum_list (map snd label) = 1"
    using cp w_sum by simp
  have 2: "sorted (map fst label)" and 3: "distinct (map fst label)"
    using cp by simp_all
  have 4: "set (map fst label) = set (map snd df)"
    using cp psub all_class by auto
  have col: "snd col = sum_list (map (\<lambda>r. if fst r = fst col then snd r else 0) (zip picked (weights d)))"
    if "col \<in> set label" for col
    using cp that by blast
  have 5: "0 \<le> snd col" if "col \<in> set label" for col
    unfolding col [OF that]
  proof (rule column_sum_nonneg)
    fix r assume r: "r \<in> set (zip picked (weights d))"
    have "snd r \<in> set (weights d)"
      using r set_zip_rightD [of "fst r" "snd r" picked "weights d"] by simp
    then show "0 \<le> snd r" by (rule w_nonneg)
  qed
  have 6: "snd col = 0" if "col \<in> set label" "fst col \<notin> set picked" for col
    unfolding col [OF that(1)]
  proof (rule column_sum_notin)
    have "fst r \<in> set picked" if "r \<in> set (zip picked (weights d))" for r
      using that set_zip_leftD [of "fst r" "snd r" picked "weights d"] by simp
    with that(2) show "fst col \<notin> fst ` set (zip picked (weights d))"
      by auto
  qed
  from len 1 2 3 4 5 6 show ?thesis
    unfolding label_def picked_def d_def by blast
qed

text \<open>
  A table of three classes; the first draw mixes a grass row and a soil row with the
  weights 0.25 and 0.75, the second takes the tree row alone.
\<close>

theorem mix_fast_label_witness:
  "mix_fast [([0.1, 0.2], ''soil''), ([0.3, 0.5], ''tree''), ([0.2, 0.6], ''grass'')]
     [\<lparr>nclass = 2, selected_rows = [2, 0], weights = [0.25, 0.75]\<rparr>,
      \<lparr>nclass = 1, selected_rows = [1], weights = [1]\<rparr>]
   = Inr [([0.125, 0.3], [(''grass'', 0.25), (''soil'', 0.75), (''tree'', 0)]),
          ([0.3, 0.5], [(''grass'', 0), (''soil'', 0), (''tree'', 1)])]
   \<and> sum_list (map snd [(''grass'', 0.25), (''soil'', 0.75), (''tree'', 0 :: real)]) = 1"
proof -
  let ?df = "[([0.1, 0.2], ''soil''), ([0.3, 0.5], ''tree''), ([0.2, 0.6], ''grass'')]"
  let ?draws = "[\<lparr>nclass = 2, selected_rows = [2, 0], weights = [0.25, 0.75]\<rparr>,
      \<lparr>nclass = 1, selected_rows = [1], weights = [1]\<rparr>]"
  let ?out = "[([0.125, 0.3], [(''grass'', 0.25), (''soil'', 0.75), (''tree'', 0)]),
          ([0.3, 0.5], [(''grass'', 0), (''soil'', 0), (''tree'', 1)])]
        :: (real list \<times> (string \<times> real) list) list"
  have run: "mix_fast ?df ?draws = Inr ?out"
    by (simp add: mix_fast_def mix_row_def weighted_sum_def class_proportions_def pivot_table_def
        add_missing_def unique_def nan_to_num_def Let_def)
  have ok: "list_all (drawn (length ?df)) ?draws"
    by (simp add: drawn_def)
  have i: "0 < length ?out"
    by simp
  have "sum_list (map snd (snd (?out ! 0))) = 1"
    by (rule mix_fast_label [OF run ok i, THEN conjunct2, THEN conjunct1])
  then have "sum_list (map snd [(''grass'', 0.25), (''soil'', 0.75), (''tree'', 0 :: real)]) = 1"
    by simp
  with run show ?thesis by (rule conjI)
qed

end
